theory Spec2Isabelle
  imports Complex_Main
begin

section \<open>Numbers\<close>

text \<open>
  A JavaScript number is NaN, an infinity or a finite double. The finite ones are
  modelled by the reals, which contain every double and on which \<open>>=\<close> and \<open><=\<close> are those
  of the doubles; \<open>-0\<close> is \<open>0\<close>. A comparison with NaN is false.
\<close>

datatype jsnumber = NaN | NegInfinity | Finite real | PosInfinity

text \<open>\<open>x >= y\<close>, \<open>x <= y\<close> and \<open>x < y\<close>.\<close>

fun js_ge :: "jsnumber \<Rightarrow> jsnumber \<Rightarrow> bool" where
  "js_ge NaN y = False"
| "js_ge x NaN = False"
| "js_ge PosInfinity y = True"
| "js_ge x NegInfinity = True"
| "js_ge NegInfinity y = False"
| "js_ge (Finite a) PosInfinity = False"
| "js_ge (Finite a) (Finite b) = (a \<ge> b)"

definition js_le :: "jsnumber \<Rightarrow> jsnumber \<Rightarrow> bool" where
  "js_le x y = js_ge y x"


text \<open>
  The rendering of a number in a template literal (\<open>`${min}`\<close>) and of an array index
  as a property key. A safe integer, one of absolute value at most \<open>2^53 - 1\<close>, is rendered
  by its decimal digits. Every other finite number has a rendering too, the shortest
  digits that read back as the same double, in exponent form from \<open>10^21\<close> on: the
  model leaves that string unspecified.
\<close>

fun nat_toString :: "nat \<Rightarrow> string" where
  "nat_toString n =
     (if n < 10 then [''0123456789'' ! n]
      else nat_toString (n div 10) @ [''0123456789'' ! (n mod 10)])"

declare nat_toString.simps [simp del]

definition safe_integer :: "real \<Rightarrow> bool" where
  "safe_integer r = (r = of_int \<lfloor>r\<rfloor> \<and> \<bar>r\<bar> \<le> 9007199254740991)"

fun number_toString :: "jsnumber \<Rightarrow> string" where
  "number_toString NaN = ''NaN''"
| "number_toString PosInfinity = ''Infinity''"
| "number_toString NegInfinity = ''-Infinity''"
| "number_toString (Finite r) =
     (if safe_integer r
      then (if r < 0 then ''-'' @ nat_toString (nat (- \<lfloor>r\<rfloor>)) else nat_toString (nat \<lfloor>r\<rfloor>))
      else undefined)"

section \<open>Untyped input values\<close>

text \<open>
  \<open>parse\<close> receives a value of TypeScript type \<open>unknown\<close>. The model covers \<open>undefined\<close>,
  \<open>null\<close>, booleans, numbers, strings, arrays and plain objects, and the values that a
  property read on an array or a plain object can return besides these: the functions
  of the standard library (by name), \<open>Object.prototype\<close> and \<open>Array.prototype\<close>. A
  string is the list of its code units, so \<open>length\<close> is the \<open>.length\<close> of the source. A
  plain object is the list of its own enumerable string-keyed properties, with distinct
  keys, in the order \<open>Object.entries\<close> lists them, and its prototype is \<open>Object.prototype\<close>; the prototype of
  an array is \<open>Array.prototype\<close>. Both prototypes are the unmodified ones of ECMAScript
  2023. Objects of other classes, accessors on the input, symbol keys and holes in arrays
  are outside the model.
\<close>

datatype jsvalue =
    VUndefined
  | VNull
  | VBoolean bool
  | VNumber jsnumber
  | VString string
  | VArray "jsvalue list"
  | VObject "(string \<times> jsvalue) list"
  | VFunction string
  | VObjectPrototype
  | VArrayPrototype

text \<open>The \<open>typeof\<close> operator and \<open>Array.isArray\<close>; \<open>Array.prototype\<close> is itself an array.\<close>

fun typeof :: "jsvalue \<Rightarrow> string" where
  "typeof VUndefined = ''undefined''"
| "typeof VNull = ''object''"
| "typeof (VBoolean b) = ''boolean''"
| "typeof (VNumber n) = ''number''"
| "typeof (VString s) = ''string''"
| "typeof (VArray xs) = ''object''"
| "typeof (VObject kvs) = ''object''"
| "typeof (VFunction f) = ''function''"
| "typeof VObjectPrototype = ''object''"
| "typeof VArrayPrototype = ''object''"

fun isArray :: "jsvalue \<Rightarrow> bool" where
  "isArray (VArray xs) = True"
| "isArray VArrayPrototype = True"
| "isArray v = False"

text \<open>The elements that \<open>for (const v of value)\<close> and \<open>value.map\<close> visit in an array.\<close>

fun elements :: "jsvalue \<Rightarrow> jsvalue list" where
  "elements (VArray xs) = xs"
| "elements v = []"

text \<open>\<open>value == null\<close>: the loose comparison holds of \<open>null\<close> and of \<open>undefined\<close>.\<close>

fun loose_eq_null :: "jsvalue \<Rightarrow> bool" where
  "loose_eq_null VNull = True"
| "loose_eq_null VUndefined = True"
| "loose_eq_null v = False"

text \<open>
  The string-keyed properties of \<open>Object.prototype\<close> and of \<open>Array.prototype\<close>, all of
  them functions, but for the accessor \<open>__proto__\<close> of \<open>Object.prototype\<close> and the
  \<open>length\<close> of \<open>Array.prototype\<close>, which \<open>get_prop\<close> treats apart.
\<close>

definition Object_prototype_names :: "string list" where
  "Object_prototype_names =
     [''constructor'', ''hasOwnProperty'', ''isPrototypeOf'', ''propertyIsEnumerable'',
      ''toLocaleString'', ''toString'', ''valueOf'', ''__defineGetter__'',
      ''__defineSetter__'', ''__lookupGetter__'', ''__lookupSetter__'']"

definition Array_prototype_names :: "string list" where
  "Array_prototype_names =
     [''at'', ''concat'', ''constructor'', ''copyWithin'', ''entries'', ''every'', ''fill'',
      ''filter'', ''find'', ''findIndex'', ''findLast'', ''findLastIndex'', ''flat'',
      ''flatMap'', ''forEach'', ''includes'', ''indexOf'', ''join'', ''keys'',
      ''lastIndexOf'', ''map'', ''pop'', ''push'', ''reduce'', ''reduceRight'', ''reverse'',
      ''shift'', ''slice'', ''some'', ''sort'', ''splice'', ''toLocaleString'',
      ''toReversed'', ''toSorted'', ''toSpliced'', ''toString'', ''unshift'', ''values'',
      ''with'']"

text \<open>
  A property read on \<open>Object.prototype\<close> and on \<open>Array.prototype\<close>. The
  \<open>constructor\<close> is the function \<open>Object\<close> or \<open>Array\<close>; \<open>__proto__\<close> gives the
  prototype of the receiver, which is \<open>null\<close> for \<open>Object.prototype\<close>; what
  \<open>Array.prototype\<close> does not have itself it inherits from \<open>Object.prototype\<close>.
\<close>

definition Object_prototype_get :: "jsvalue \<Rightarrow> string \<Rightarrow> jsvalue" where
  "Object_prototype_get proto k =
     (if k = ''__proto__'' then proto
      else if k = ''constructor'' then VFunction ''Object''
      else if k \<in> set Object_prototype_names then VFunction (''Object.prototype.'' @ k)
      else VUndefined)"

definition Array_prototype_get :: "jsvalue \<Rightarrow> string \<Rightarrow> jsvalue" where
  "Array_prototype_get proto k =
     (if k = ''__proto__'' then proto
      else if k = ''constructor'' then VFunction ''Array''
      else if k \<in> set Array_prototype_names then VFunction (''Array.prototype.'' @ k)
      else Object_prototype_get proto k)"

text \<open>
  \<open>recordValue[k]\<close>: the property of a value under a string key. An own property comes
  first: a property of a plain object, or an element or the \<open>length\<close> of an array.
  Otherwise the read goes up the prototype chain, and it gives \<open>undefined\<close> when no
  object of the chain has the key. \<open>ZodObject.parse\<close> reads properties only of values
  that pass its object check, so the last equation is never used.
\<close>

fun get_prop :: "jsvalue \<Rightarrow> string \<Rightarrow> jsvalue" where
  "get_prop (VObject kvs) k =
     (case map_of kvs k of
        Some x \<Rightarrow> x
      | None \<Rightarrow> Object_prototype_get VObjectPrototype k)"
| "get_prop (VArray xs) k =
     (if k = ''length'' then VNumber (Finite (real (length xs)))
      else (case filter (\<lambda>i. nat_toString i = k) [0..<length xs] of
              i # _ \<Rightarrow> xs ! i
            | [] \<Rightarrow> Array_prototype_get VArrayPrototype k))"
| "get_prop VObjectPrototype k = Object_prototype_get VNull k"
| "get_prop VArrayPrototype k =
     (if k = ''length'' then VNumber (Finite 0) else Array_prototype_get VObjectPrototype k)"
| "get_prop v k = VUndefined"

text \<open>
  \<open>Object.entries(value)\<close>: the own enumerable properties, in order. The properties of
  the two prototypes are not enumerable.
\<close>

fun entries :: "jsvalue \<Rightarrow> (string \<times> jsvalue) list" where
  "entries (VObject kvs) = kvs"
| "entries (VArray xs) = zip (map nat_toString [0..<length xs]) xs"
| "entries v = []"

section \<open>Failures\<close>

text \<open>
  The class-based engine throws two classes of exception: \<open>TypeError\<close> and plain
  \<open>Error\<close>. \<open>TypeError m\<close> is an instance of \<open>TypeError\<close>; \<open>Error m\<close> is an instance
  of \<open>Error\<close> that is not a \<open>TypeError\<close>. A thrown exception is the \<open>Inl\<close> of a result.
\<close>

datatype js_error = TypeError string | Error string

fun error_message :: "js_error \<Rightarrow> string" where
  "error_message (TypeError m) = m"
| "error_message (Error m) = m"

fun instanceof_TypeError :: "js_error \<Rightarrow> bool" where
  "instanceof_TypeError (TypeError m) = True"
| "instanceof_TypeError (Error m) = False"

text \<open>\<open>xs.join('\n')\<close> on a list of strings.\<close>

fun join_newline :: "string list \<Rightarrow> string" where
  "join_newline [] = []"
| "join_newline [x] = x"
| "join_newline (x # y # ys) = x @ [CHR 0x0A] @ join_newline (y # ys)"

text \<open>
  The exception both combinators throw:
  \<open>new Error(`Invalid values: \n ${messages}`)\<close> with
  \<open>messages = errors.map((error) => error.message).join('\n')\<close>.
\<close>

definition invalid_values :: "js_error list \<Rightarrow> js_error" where
  "invalid_values errors =
     Error (''Invalid values: '' @ [CHR 0x0A] @ '' '' @ join_newline (map error_message errors))"

section \<open>The class-based engine\<close>

record 'a ZodChecker =
  message :: string
  checker :: "'a \<Rightarrow> bool"

record 'a ZodDefine =
  checkers :: "'a ZodChecker list option"

type_synonym ZodStringDefine = "string ZodDefine"
type_synonym ZodNumberDefine = "jsnumber ZodDefine"

datatype zod_type =
    ZodOptional zod_type
  | ZodUnion "zod_type list"
  | ZodIntersection zod_type zod_type
  | ZodUnknown
  | ZodString "ZodStringDefine option"
  | ZodNumber "ZodNumberDefine option"
  | ZodArray zod_type
  | ZodObject "(string \<times> zod_type) list"

text \<open>
  The fields of a \<open>ZodObject\<close> are the list that \<open>Object.entries(this.fields)\<close> gives:
  the keys are distinct, and the integer-like ones come first.
\<close>

text \<open>\<open>this.definition?.checkers ?? []\<close>\<close>

definition get_checkers :: "'a ZodDefine option \<Rightarrow> 'a ZodChecker list" where
  "get_checkers definition =
     (case definition of
        None \<Rightarrow> []
      | Some d \<Rightarrow> (case checkers d of None \<Rightarrow> [] | Some cs \<Rightarrow> cs))"

text \<open>
  The loop \<open>for (const checker of checkers)\<close> of \<open>ZodString.parse\<close> and
  \<open>ZodNumber.parse\<close>: the first checker that returns false throws. The test
  \<open>typeof value !== 'string'\<close> before the loop holds of every value but a string, so
  the parse of a leaf is a case distinction on the value; likewise for
  \<open>typeof value !== 'number'\<close>.
\<close>

fun run_checkers :: "'a ZodChecker list \<Rightarrow> 'a \<Rightarrow> js_error + unit" where
  "run_checkers [] v = Inr ()"
| "run_checkers (c # cs) v =
     (if \<not> checker c v then Inl (Error (message c)) else run_checkers cs v)"

definition ZodString_parse :: "ZodStringDefine option \<Rightarrow> jsvalue \<Rightarrow> js_error + jsvalue" where
  "ZodString_parse definition v =
     (case v of
        VString s \<Rightarrow>
          (case run_checkers (get_checkers definition) s of
             Inl e \<Rightarrow> Inl e
           | Inr _ \<Rightarrow> Inr v)
      | _ \<Rightarrow> Inl (TypeError ''Not a string''))"

definition ZodNumber_parse :: "ZodNumberDefine option \<Rightarrow> jsvalue \<Rightarrow> js_error + jsvalue" where
  "ZodNumber_parse definition v =
     (case v of
        VNumber n \<Rightarrow>
          (case run_checkers (get_checkers definition) n of
             Inl e \<Rightarrow> Inl e
           | Inr _ \<Rightarrow> Inr v)
      | _ \<Rightarrow> Inl (TypeError ''Not a number''))"

text \<open>
  A \<open>catch\<close> block of \<open>ZodUnion.parse\<close> and \<open>ZodIntersection.parse\<close>: the exception is
  pushed when it is a \<open>TypeError\<close>; the block has no other branch and does not rethrow.
\<close>

definition catch_push :: "js_error \<Rightarrow> js_error list \<Rightarrow> js_error list" where
  "catch_push e errors = (if instanceof_TypeError e then errors @ [e] else errors)"

text \<open>
  \<open>parse\<close> dispatches on the class of the schema. \<open>parse_union types n value errors\<close>
  is the loop of \<open>ZodUnion.parse\<close> over the types still to try, with \<open>n\<close> the value of
  \<open>this.types.length\<close>; falling off the end of the method returns \<open>undefined\<close>.
  \<open>parse_elements\<close> is the loop of \<open>ZodArray.parse\<close> and \<open>parse_fields\<close> the loop of
  \<open>ZodObject.parse\<close> over \<open>Object.entries(this.fields)\<close>.
\<close>

fun parse :: "zod_type \<Rightarrow> jsvalue \<Rightarrow> js_error + jsvalue"
  and parse_union :: "zod_type list \<Rightarrow> nat \<Rightarrow> jsvalue \<Rightarrow> js_error list \<Rightarrow> js_error + jsvalue"
  and parse_elements :: "zod_type \<Rightarrow> jsvalue list \<Rightarrow> js_error + unit"
  and parse_fields :: "(string \<times> zod_type) list \<Rightarrow> jsvalue \<Rightarrow> js_error + unit"
where
  "parse (ZodOptional t) v = (if v = VUndefined then Inr VUndefined else parse t v)"
| "parse (ZodUnion ts) v = parse_union ts (length ts) v []"
| "parse (ZodIntersection l r) v =
     (let errors1 = (case parse l v of Inl e \<Rightarrow> catch_push e [] | Inr _ \<Rightarrow> []);
          errors2 = (case parse r v of Inl e \<Rightarrow> catch_push e errors1 | Inr _ \<Rightarrow> errors1)
      in if length errors2 = 2 then Inl (invalid_values errors2) else Inr v)"
| "parse ZodUnknown v = Inr v"
| "parse (ZodString d) v = ZodString_parse d v"
| "parse (ZodNumber d) v = ZodNumber_parse d v"
| "parse (ZodArray element) v =
     (if \<not> isArray v then Inl (TypeError ''Not an array'')
      else (case parse_elements element (elements v) of Inl e \<Rightarrow> Inl e | Inr _ \<Rightarrow> Inr v))"
| "parse (ZodObject fs) v =
     (if typeof v \<noteq> ''object'' \<or> loose_eq_null v then Inl (Error ''Not an object'')
      else (case parse_fields fs v of Inl e \<Rightarrow> Inl e | Inr _ \<Rightarrow> Inr v))"
| "parse_union [] n v errors =
     (if length errors = n then Inl (invalid_values errors) else Inr VUndefined)"
| "parse_union (t # ts) n v errors =
     (case parse t v of
        Inr w \<Rightarrow> Inr w
      | Inl e \<Rightarrow> parse_union ts n v (catch_push e errors))"
| "parse_elements element [] = Inr ()"
| "parse_elements element (x # xs) =
     (case parse element x of Inl e \<Rightarrow> Inl e | Inr _ \<Rightarrow> parse_elements element xs)"
| "parse_fields [] v = Inr ()"
| "parse_fields ((k, t) # fs) v =
     (case parse t (get_prop v k) of Inl e \<Rightarrow> Inl e | Inr _ \<Rightarrow> parse_fields fs v)"

text \<open>
  The four object literals that \<open>min\<close> and \<open>max\<close> append, and the methods themselves:
  each builds a definition whose \<open>checkers\<close> is \<open>[...checkers, literal]\<close> and passes
  it to \<open>create\<close>. \<open>value.length >= min\<close> compares the number of code units with
  the bound, which is any number.
\<close>

definition string_min_checker :: "jsnumber \<Rightarrow> string ZodChecker" where
  "string_min_checker n =
     \<lparr>message = ''Must be at least '' @ number_toString n @ '' characters'',
      checker = (\<lambda>value. js_ge (Finite (real (length value))) n)\<rparr>"

definition string_max_checker :: "jsnumber \<Rightarrow> string ZodChecker" where
  "string_max_checker n =
     \<lparr>message = ''Must be at most '' @ number_toString n @ '' characters'',
      checker = (\<lambda>value. js_le (Finite (real (length value))) n)\<rparr>"

definition number_min_checker :: "jsnumber \<Rightarrow> jsnumber ZodChecker" where
  "number_min_checker n =
     \<lparr>message = ''Must be at least '' @ number_toString n,
      checker = (\<lambda>value. js_ge value n)\<rparr>"

definition number_max_checker :: "jsnumber \<Rightarrow> jsnumber ZodChecker" where
  "number_max_checker n =
     \<lparr>message = ''Must be at most '' @ number_toString n,
      checker = (\<lambda>value. js_le value n)\<rparr>"

definition ZodString_create :: "ZodStringDefine option \<Rightarrow> zod_type" where
  "ZodString_create definition = ZodString definition"

definition ZodNumber_create :: "ZodNumberDefine option \<Rightarrow> zod_type" where
  "ZodNumber_create definition = ZodNumber definition"

definition ZodString_min :: "ZodStringDefine option \<Rightarrow> jsnumber \<Rightarrow> zod_type" where
  "ZodString_min definition n =
     ZodString_create (Some \<lparr>checkers = Some (get_checkers definition @ [string_min_checker n])\<rparr>)"

definition ZodString_max :: "ZodStringDefine option \<Rightarrow> jsnumber \<Rightarrow> zod_type" where
  "ZodString_max definition n =
     ZodString_create (Some \<lparr>checkers = Some (get_checkers definition @ [string_max_checker n])\<rparr>)"

definition ZodNumber_min :: "ZodNumberDefine option \<Rightarrow> jsnumber \<Rightarrow> zod_type" where
  "ZodNumber_min definition n =
     ZodNumber_create (Some \<lparr>checkers = Some (get_checkers definition @ [number_min_checker n])\<rparr>)"

definition ZodNumber_max :: "ZodNumberDefine option \<Rightarrow> jsnumber \<Rightarrow> zod_type" where
  "ZodNumber_max definition n =
     ZodNumber_create (Some \<lparr>checkers = Some (get_checkers definition @ [number_max_checker n])\<rparr>)"

section \<open>The interface-based engine\<close>

text \<open>
  \<open>schema.ts\<close> builds object literals with a \<open>type\<close> tag and a \<open>parse\<close> closure. Its
  schemas carry the names of the source with the prefix \<open>I\<close>, since both files use the
  same names. Its validation failure is \<open>ZodTypeError\<close>. Calling \<open>.parse\<close> on
  \<open>fields[key]\<close> when \<open>fields\<close> has no such key is a \<open>TypeError\<close> of the runtime
  itself, here \<open>RuntimeTypeError\<close>.
\<close>

datatype izod_error = ZodTypeError string | RuntimeTypeError

datatype izod_type =
    IZodUnknown
  | IZodString
  | IZodNumber
  | IZodArray izod_type
  | IZodObject "(string \<times> izod_type) list"

text \<open>
  \<open>iparse_elements\<close> is \<open>value.map((item) => element.parse(item))\<close>, and
  \<open>iparse_entries\<close> is \<open>Object.entries(recordValue).forEach(([key, value]) =>
  fields[key].parse(value))\<close>: it walks the entries of the input, not of the schema.
\<close>

function iparse :: "izod_type \<Rightarrow> jsvalue \<Rightarrow> izod_error + jsvalue"
  and iparse_elements :: "izod_type \<Rightarrow> jsvalue list \<Rightarrow> izod_error + jsvalue list"
  and iparse_entries :: "(string \<times> izod_type) list \<Rightarrow> (string \<times> jsvalue) list \<Rightarrow> izod_error + unit"
where
  "iparse IZodString v =
     (if typeof v \<noteq> ''string'' then Inl (ZodTypeError ''Invalid string'') else Inr v)"
| "iparse IZodNumber v =
     (if typeof v \<noteq> ''number'' then Inl (ZodTypeError ''Invalid number'') else Inr v)"
| "iparse IZodUnknown v = Inr v"
| "iparse (IZodArray element) v =
     (if \<not> isArray v then Inl (ZodTypeError ''Invalid array'')
      else (case iparse_elements element (elements v) of
              Inl e \<Rightarrow> Inl e
            | Inr ws \<Rightarrow> Inr (VArray ws)))"
| "iparse (IZodObject fs) v =
     (if typeof v \<noteq> ''object'' \<or> v = VNull then Inl (ZodTypeError ''Invalid object'')
      else (case iparse_entries fs (entries v) of Inl e \<Rightarrow> Inl e | Inr _ \<Rightarrow> Inr v))"
| "iparse_elements element [] = Inr []"
| "iparse_elements element (x # xs) =
     (case iparse element x of
        Inl e \<Rightarrow> Inl e
      | Inr w \<Rightarrow> (case iparse_elements element xs of Inl e \<Rightarrow> Inl e | Inr ws \<Rightarrow> Inr (w # ws)))"
| "iparse_entries fs [] = Inr ()"
| "iparse_entries fs ((key, value) # rest) =
     (case map_of fs key of
        None \<Rightarrow> Inl RuntimeTypeError
      | Some t \<Rightarrow> (case iparse t value of Inl e \<Rightarrow> Inl e | Inr _ \<Rightarrow> iparse_entries fs rest))"
  by pat_completeness auto
termination
proof -
  have smaller: "map_of gs key = Some t \<Longrightarrow> size t < Suc (size_list (size_prod (\<lambda>_. 0) size) gs)"
    for gs :: "(string \<times> izod_type) list" and key t
    by (induction gs) (auto split: if_splits)
  show ?thesis
    by (relation "inv_image (less_than <*lex*> less_than)
         (\<lambda>x. case x of
            Inl (t, v) \<Rightarrow> (2 * size t, 0)
          | Inr (Inl (t, vs)) \<Rightarrow> (2 * size t + 1, length vs)
          | Inr (Inr (fs, es)) \<Rightarrow> (2 * size_list (size_prod (\<lambda>_. 0) size) fs + 1, length es))")
      (auto dest: smaller)
qed

text \<open>
  The schemas that both files can build. \<open>string()\<close> of the class-based file is
  \<open>ZodString.create\<close> called without a definition, and likewise \<open>number()\<close>.
\<close>

fun class_of :: "izod_type \<Rightarrow> zod_type" where
  "class_of IZodUnknown = ZodUnknown"
| "class_of IZodString = ZodString_create None"
| "class_of IZodNumber = ZodNumber_create None"
| "class_of (IZodArray element) = ZodArray (class_of element)"
| "class_of (IZodObject fs) = ZodObject (map (\<lambda>p. (fst p, class_of (snd p))) fs)"

fun object_free :: "izod_type \<Rightarrow> bool" where
  "object_free (IZodArray element) = object_free element"
| "object_free (IZodObject fs) = False"
| "object_free t = True"

section \<open>Refinement calls on a heap\<close>

text \<open>
  Whether \<open>min\<close> and \<open>max\<close> change their receiver is a question about objects with
  identity, so here the objects of a leaf schema live in a heap: the schema instance
  refers to its definition object, which refers to its array of checkers. An address is
  an index into the heap, and \<open>new\<close>, an object literal and an array literal each
  allocate at the end. The heap is for one leaf class: \<open>'a\<close> is \<open>string\<close> for
  \<open>ZodString\<close> and \<open>jsnumber\<close> for \<open>ZodNumber\<close>.
\<close>

datatype 'a heap_object =
    CheckerArray "'a ZodChecker list"
  | DefinitionObject "nat option"
  | LeafSchema "nat option"

type_synonym 'a heap = "'a heap_object list"

definition heap_lookup :: "'a heap \<Rightarrow> nat \<Rightarrow> 'a heap_object option" where
  "heap_lookup h a = (if a < length h then Some (h ! a) else None)"

definition alloc :: "'a heap \<Rightarrow> 'a heap_object \<Rightarrow> nat \<times> 'a heap" where
  "alloc h obj = (length h, h @ [obj])"

text \<open>\<open>this.definition?.checkers ?? []\<close>, read through the heap.\<close>

definition heap_checkers :: "'a heap \<Rightarrow> nat \<Rightarrow> 'a ZodChecker list" where
  "heap_checkers h this =
     (case heap_lookup h this of
        Some (LeafSchema (Some d)) \<Rightarrow>
          (case heap_lookup h d of
             Some (DefinitionObject (Some c)) \<Rightarrow>
               (case heap_lookup h c of Some (CheckerArray cs) \<Rightarrow> cs | _ \<Rightarrow> [])
           | _ \<Rightarrow> [])
      | _ \<Rightarrow> [])"

text \<open>
  The body the four methods share: read the receiver's checkers, build the array
  \<open>[...checkers, literal]\<close>, the definition \<open>{checkers: ...}\<close> and the new instance.
  Nothing is written to an address that was already allocated.
\<close>

definition heap_refine :: "'a heap \<Rightarrow> nat \<Rightarrow> 'a ZodChecker \<Rightarrow> nat \<times> 'a heap" where
  "heap_refine h this literal =
     (let cs = heap_checkers h this;
          (arr, h1) = alloc h (CheckerArray (cs @ [literal]));
          (d, h2) = alloc h1 (DefinitionObject (Some arr));
          (s, h3) = alloc h2 (LeafSchema (Some d))
      in (s, h3))"

definition heap_ZodString_min :: "string heap \<Rightarrow> nat \<Rightarrow> jsnumber \<Rightarrow> nat \<times> string heap" where
  "heap_ZodString_min h this n = heap_refine h this (string_min_checker n)"

definition heap_ZodString_max :: "string heap \<Rightarrow> nat \<Rightarrow> jsnumber \<Rightarrow> nat \<times> string heap" where
  "heap_ZodString_max h this n = heap_refine h this (string_max_checker n)"

definition heap_ZodNumber_min :: "jsnumber heap \<Rightarrow> nat \<Rightarrow> jsnumber \<Rightarrow> nat \<times> jsnumber heap" where
  "heap_ZodNumber_min h this n = heap_refine h this (number_min_checker n)"

definition heap_ZodNumber_max :: "jsnumber heap \<Rightarrow> nat \<Rightarrow> jsnumber \<Rightarrow> nat \<times> jsnumber heap" where
  "heap_ZodNumber_max h this n = heap_refine h this (number_max_checker n)"

text \<open>The definition a leaf instance of the heap stands for, and its \<open>parse\<close>.\<close>

definition heap_definition :: "'a heap \<Rightarrow> nat \<Rightarrow> 'a ZodDefine option" where
  "heap_definition h this = Some \<lparr>checkers = Some (heap_checkers h this)\<rparr>"

definition heap_ZodString_parse :: "string heap \<Rightarrow> nat \<Rightarrow> jsvalue \<Rightarrow> js_error + jsvalue" where
  "heap_ZodString_parse h this v = ZodString_parse (heap_definition h this) v"

definition heap_ZodNumber_parse :: "jsnumber heap \<Rightarrow> nat \<Rightarrow> jsvalue \<Rightarrow> js_error + jsvalue" where
  "heap_ZodNumber_parse h this v = ZodNumber_parse (heap_definition h this) v"

text \<open>A heap is closed when every reference in it points to an allocated address.\<close>

fun refs_below :: "nat \<Rightarrow> 'a heap_object \<Rightarrow> bool" where
  "refs_below n (CheckerArray cs) = True"
| "refs_below n (DefinitionObject None) = True"
| "refs_below n (DefinitionObject (Some c)) = (c < n)"
| "refs_below n (LeafSchema None) = True"
| "refs_below n (LeafSchema (Some d)) = (d < n)"

definition closed_heap :: "'a heap \<Rightarrow> bool" where
  "closed_heap h = list_all (refs_below (length h)) h"

section \<open>Facts about the primitives\<close>

lemma typeof_string_iff: "typeof v = ''string'' \<longleftrightarrow> (\<exists>s. v = VString s)"
  by (cases v) auto

lemma typeof_number_iff: "typeof v = ''number'' \<longleftrightarrow> (\<exists>n. v = VNumber n)"
  by (cases v) auto

lemma isArray_iff: "isArray v \<longleftrightarrow> (\<exists>xs. v = VArray xs) \<or> v = VArrayPrototype"
  by (cases v) auto

lemma typeof_object_iff:
  "\<not> (typeof v \<noteq> ''object'' \<or> loose_eq_null v) \<longleftrightarrow>
     (\<exists>xs. v = VArray xs) \<or> (\<exists>kvs. v = VObject kvs) \<or> v = VObjectPrototype \<or> v = VArrayPrototype"
  by (cases v) auto



lemma run_checkers_ok_iff: "run_checkers cs v = Inr u \<longleftrightarrow> (\<forall>c\<in>set cs. checker c v)"
  by (induction cs) auto


lemma run_checkers_error_class: "run_checkers cs v = Inl e \<Longrightarrow> \<not> instanceof_TypeError e"
  by (induction cs) (auto split: if_splits)

lemma parse_union_first_success:
  "(\<forall>u\<in>set pre. \<exists>e. parse u v = Inl e) \<Longrightarrow> parse t v = Inr w \<Longrightarrow>
     parse_union (pre @ t # post) n v errors = Inr w"
  by (induction pre arbitrary: errors) auto

lemma parse_union_all_fail:
  "map (\<lambda>t. parse t v) ts = map Inl es \<Longrightarrow>
     parse_union ts n v errors =
       (if length (errors @ filter instanceof_TypeError es) = n
        then Inl (invalid_values (errors @ filter instanceof_TypeError es))
        else Inr VUndefined)"
proof (induction ts arbitrary: es errors)
  case Nil
  then show ?case by simp
next
  case (Cons t ts)
  then obtain e es' where es: "es = e # es'" "parse t v = Inl e"
    "map (\<lambda>t. parse t v) ts = map Inl es'"
    by (cases es) auto
  show ?case
    using Cons.IH [OF es(3), of "catch_push e errors"] es(1,2)
    by (simp add: catch_push_def)
qed

lemma parse_union_split:
  "(\<exists>pre t post w. ts = pre @ t # post \<and> (\<forall>u\<in>set pre. \<exists>e. parse u v = Inl e) \<and> parse t v = Inr w)
   \<or> (\<exists>es. map (\<lambda>t. parse t v) ts = map Inl es)"
proof (induction ts)
  case Nil
  then show ?case by simp
next
  case (Cons t ts)
  show ?case
  proof (cases "parse t v")
    case (Inr w)
    then have "t # ts = [] @ t # ts \<and> (\<forall>u\<in>set []. \<exists>e. parse u v = Inl e) \<and> parse t v = Inr w"
      by simp
    then show ?thesis by blast
  next
    case (Inl e)
    from Cons.IH show ?thesis
    proof
      assume "\<exists>pre t' post w. ts = pre @ t' # post \<and> (\<forall>u\<in>set pre. \<exists>e. parse u v = Inl e) \<and> parse t' v = Inr w"
      then obtain pre t' post w where
        "ts = pre @ t' # post" "\<forall>u\<in>set pre. \<exists>e. parse u v = Inl e" "parse t' v = Inr w"
        by blast
      with Inl have "t # ts = (t # pre) @ t' # post \<and> (\<forall>u\<in>set (t # pre). \<exists>e. parse u v = Inl e) \<and> parse t' v = Inr w"
        by simp
      then show ?thesis by blast
    next
      assume "\<exists>es. map (\<lambda>t. parse t v) ts = map Inl es"
      then obtain es where "map (\<lambda>t. parse t v) ts = map Inl es" by blast
      with Inl have "map (\<lambda>t. parse t v) (t # ts) = map Inl (e # es)" by simp
      then show ?thesis by blast
    qed
  qed
qed

lemma parse_elements_ok_iff:
  "parse_elements t xs = Inr u \<longleftrightarrow> (\<forall>x\<in>set xs. \<exists>w. parse t x = Inr w)"
  by (induction xs) (auto split: sum.splits)


lemma parse_fields_first_failure:
  "(\<forall>(k', t')\<in>set pre. \<exists>w. parse t' (get_prop v k') = Inr w) \<Longrightarrow>
   parse t (get_prop v k) = Inl e \<Longrightarrow>
     parse_fields (pre @ (k, t) # post) v = Inl e"
  by (induction pre) (auto split: sum.splits)

lemma parse_fields_cong_props:
  "(\<forall>k\<in>fst ` set fs. get_prop v' k = get_prop v k) \<Longrightarrow> parse_fields fs v' = parse_fields fs v"
  by (induction fs) (auto split: sum.splits)

lemma get_prop_extra_key:
  "k \<noteq> k' \<Longrightarrow> get_prop (VObject (kvs1 @ (k', x) # kvs2)) k = get_prop (VObject (kvs1 @ kvs2)) k"
  by (simp add: map_of_append map_add_def split: option.splits)

section \<open>Facts about the heap\<close>

lemma heap_lookup_append: "a < length h \<Longrightarrow> heap_lookup (h @ xs) a = heap_lookup h a"
  by (simp add: heap_lookup_def nth_append)

lemma heap_lookup_closed:
  "closed_heap h \<Longrightarrow> heap_lookup h a = Some obj \<Longrightarrow> refs_below (length h) obj"
  by (auto simp: closed_heap_def heap_lookup_def list_all_length split: if_splits)

lemma heap_checkers_append:
  assumes closed: "closed_heap h" and allocated: "this < length h"
  shows "heap_checkers (h @ xs) this = heap_checkers h this"
proof -
  have same: "heap_lookup (h @ xs) a = heap_lookup h a" if "a < length h" for a
    using that by (rule heap_lookup_append)
  show ?thesis
  proof (cases "heap_lookup h this")
    case None
    then show ?thesis by (simp add: heap_checkers_def same allocated)
  next
    case (Some obj)
    show ?thesis
    proof (cases "\<exists>d. obj = LeafSchema (Some d)")
      case False
      then show ?thesis
        using Some by (simp add: heap_checkers_def same allocated split: heap_object.splits option.splits)
    next
      case True
      then obtain d where obj: "obj = LeafSchema (Some d)" by blast
      with heap_lookup_closed [OF closed Some] have d: "d < length h" by simp
      show ?thesis
      proof (cases "\<exists>c. heap_lookup h d = Some (DefinitionObject (Some c))")
        case False
        then show ?thesis
          using Some obj d
          by (simp add: heap_checkers_def same allocated split: heap_object.splits option.splits)
      next
        case True
        then obtain c where def: "heap_lookup h d = Some (DefinitionObject (Some c))" by blast
        with heap_lookup_closed [OF closed def] have c: "c < length h" by simp
        show ?thesis
          using Some obj d def c by (simp add: heap_checkers_def same allocated)
      qed
    qed
  qed
qed

lemma heap_refine_new:
  "heap_refine h this c = (s, h') \<Longrightarrow> heap_checkers h' s = heap_checkers h this @ [c]"
  by (auto simp: heap_refine_def alloc_def heap_checkers_def [of "_ @ _"] heap_lookup_def nth_append Let_def)

lemma heap_refine_frame:
  "heap_refine h this c = (s, h') \<Longrightarrow> length h \<le> s \<and> (\<forall>a<length h. heap_lookup h' a = heap_lookup h a)"
  by (auto simp: heap_refine_def alloc_def heap_lookup_def nth_append Let_def)

lemma heap_refine_heap: "snd (heap_refine h this c) = h @ [CheckerArray (heap_checkers h this @ [c]), DefinitionObject (Some (length h)), LeafSchema (Some (Suc (length h)))]"
  by (simp add: heap_refine_def alloc_def Let_def)

lemma refs_below_mono: "refs_below n obj \<Longrightarrow> n \<le> m \<Longrightarrow> refs_below m obj"
  by (induction n obj rule: refs_below.induct) auto

lemma heap_refine_closed: "closed_heap h \<Longrightarrow> closed_heap (snd (heap_refine h this c))"
proof -
  assume "closed_heap h"
  then have "refs_below (length h + 3) x" if "x \<in> set h" for x
    using that by (auto simp: closed_heap_def list_all_iff intro: refs_below_mono)
  then show ?thesis
    by (auto simp: heap_refine_heap closed_heap_def list_all_iff numeral_3_eq_3)
qed

section \<open>Facts about leaf schemas and unions\<close>





lemma get_checkers_Some [simp]:
  "get_checkers (Some \<lparr>checkers = Some cs\<rparr>) = cs"
  by (simp add: get_checkers_def)




lemma union_all_type_errors:
  assumes "map (\<lambda>t. parse t v) ts = map Inl es" and "\<forall>e\<in>set es. instanceof_TypeError e"
  shows "parse (ZodUnion ts) v = Inl (invalid_values es)"
proof -
  have "filter instanceof_TypeError es = es"
    using assms(2) by (simp add: filter_id_conv)
  moreover have "length es = length ts"
    using assms(1) by (metis length_map)
  ultimately show ?thesis
    using parse_union_all_fail [OF assms(1), of "length ts" "[]"] by simp
qed

lemma union_accepts_iff:
  assumes "\<forall>t\<in>set ts. \<forall>e. parse t v = Inl e \<longrightarrow> instanceof_TypeError e"
  shows "(\<exists>w. parse (ZodUnion ts) v = Inr w) \<longleftrightarrow> (\<exists>t\<in>set ts. \<exists>w. parse t v = Inr w)"
proof -
  from parse_union_split [of ts v] show ?thesis
  proof
    assume "\<exists>pre t post w. ts = pre @ t # post \<and> (\<forall>u\<in>set pre. \<exists>e. parse u v = Inl e) \<and> parse t v = Inr w"
    then obtain pre t post w where
      ts: "ts = pre @ t # post" and pre: "\<forall>u\<in>set pre. \<exists>e. parse u v = Inl e" and t: "parse t v = Inr w"
      by blast
    have "parse (ZodUnion ts) v = Inr w"
      using parse_union_first_success [OF pre t] ts by simp
    moreover have "t \<in> set ts" using ts by simp
    ultimately show ?thesis using t by blast
  next
    assume "\<exists>es. map (\<lambda>t. parse t v) ts = map Inl es"
    then obtain es where es: "map (\<lambda>t. parse t v) ts = map Inl es" by blast
    have "\<forall>e\<in>set es. instanceof_TypeError e"
    proof
      fix e assume "e \<in> set es"
      then have "Inl e \<in> set (map (\<lambda>t. parse t v) ts)" using es by simp
      then obtain t where "t \<in> set ts" "parse t v = Inl e" by auto
      with assms show "instanceof_TypeError e" by blast
    qed
    from union_all_type_errors [OF es this] have "\<not> (\<exists>w. parse (ZodUnion ts) v = Inr w)" by simp
    moreover have "\<not> (\<exists>t\<in>set ts. \<exists>w. parse t v = Inr w)"
    proof
      assume "\<exists>t\<in>set ts. \<exists>w. parse t v = Inr w"
      then obtain t w where "t \<in> set ts" "parse t v = Inr w" by blast
      then have "Inr w \<in> set (map (\<lambda>t. parse t v) ts)" by force
      with es show False by auto
    qed
    ultimately show ?thesis by blast
  qed
qed

section \<open>Union\<close>

text \<open>
  C1, as the code has it. For every union and every input: when some child accepts, the
  union returns the result of the first child, in declared order, that accepts. When
  every child fails with a \<open>TypeError\<close>, the union fails with a plain \<open>Error\<close>
  whose message is \<open>Invalid values: \<close>, a newline, a space, and then the messages of all
  branch failures in declared order joined by newlines. So when no child fails with
  anything but a \<open>TypeError\<close>, the union accepts if and only if at least one child does.
  What the union does when a child fails with an exception that is not a \<open>TypeError\<close>
  and no child accepts is left out here.
\<close>

theorem union_first_success_or_joined_failure:
  "(ts = pre @ t # post \<and> (\<forall>u\<in>set pre. \<exists>e. parse u v = Inl e) \<and> parse t v = Inr w \<longrightarrow>
      parse (ZodUnion ts) v = Inr w)
   \<and> (map (\<lambda>t. parse t v) ts = map Inl es \<and> (\<forall>e\<in>set es. instanceof_TypeError e) \<longrightarrow>
      parse (ZodUnion ts) v =
        Inl (Error (''Invalid values: '' @ [CHR 0x0A] @ '' '' @ join_newline (map error_message es))))
   \<and> ((\<forall>t\<in>set ts. \<forall>e. parse t v = Inl e \<longrightarrow> instanceof_TypeError e) \<longrightarrow>
      ((\<exists>w. parse (ZodUnion ts) v = Inr w) \<longleftrightarrow> (\<exists>t\<in>set ts. \<exists>w. parse t v = Inr w)))"
proof (intro conjI impI)
  show "parse (ZodUnion ts) v = Inr w"
    if "ts = pre @ t # post \<and> (\<forall>u\<in>set pre. \<exists>e. parse u v = Inl e) \<and> parse t v = Inr w"
    using that parse_union_first_success [of pre v t w post "length ts" "[]"] by simp
  show "parse (ZodUnion ts) v =
        Inl (Error (''Invalid values: '' @ [CHR 0x0A] @ '' '' @ join_newline (map error_message es)))"
    if "map (\<lambda>t. parse t v) ts = map Inl es \<and> (\<forall>e\<in>set es. instanceof_TypeError e)"
    using that union_all_type_errors [of v ts es] by (simp add: invalid_values_def)
  show "(\<exists>w. parse (ZodUnion ts) v = Inr w) \<longleftrightarrow> (\<exists>t\<in>set ts. \<exists>w. parse t v = Inr w)"
    if "\<forall>t\<in>set ts. \<forall>e. parse t v = Inl e \<longrightarrow> instanceof_TypeError e"
    using that by (rule union_accepts_iff)
qed

text \<open>
  The theorem at \<open>Union([String, Number, Unknown])\<close> on \<open>7\<close>, where the second child is
  the first to accept, and at \<open>Union([String, Number])\<close> on \<open>true\<close>, where both fail.
\<close>

theorem union_first_success_or_joined_failure_witness:
  "parse (ZodUnion [ZodString None, ZodNumber None, ZodUnknown]) (VNumber (Finite 7)) = Inr (VNumber (Finite 7))
   \<and> parse (ZodUnion [ZodString None, ZodNumber None]) (VBoolean True) =
       Inl (Error (''Invalid values: '' @ [CHR 0x0A] @ '' Not a string'' @ [CHR 0x0A] @ ''Not a number''))
   \<and> ((\<exists>w. parse (ZodUnion [ZodString None, ZodNumber None]) (VBoolean True) = Inr w) \<longleftrightarrow>
       (\<exists>t\<in>set [ZodString None, ZodNumber None]. \<exists>w. parse t (VBoolean True) = Inr w))"
  using union_first_success_or_joined_failure
    [where ts = "[ZodString None, ZodNumber None, ZodUnknown]" and pre = "[ZodString None]"
       and t = "ZodNumber None" and post = "[ZodUnknown]" and v = "VNumber (Finite 7)" and w = "VNumber (Finite 7)"
       and es = "[]"]
    union_first_success_or_joined_failure
    [where ts = "[ZodString None, ZodNumber None]" and v = "VBoolean True"
       and es = "[TypeError ''Not a string'', TypeError ''Not a number'']"
       and pre = "[]" and t = ZodUnknown and post = "[]" and w = VNull]
  by (simp add: ZodString_parse_def ZodNumber_parse_def get_checkers_def)

text \<open>
  C1 as stated fails twice. The message of the failure of \<open>Union([String, Number])\<close> on
  \<open>true\<close> is not the newline-joined branch messages: it starts with the prefix of the
  template. And \<open>Union([String.min(3)])\<close> accepts \<open>"ab"\<close>, returning \<open>undefined\<close>,
  although its only child rejects \<open>"ab"\<close>.
\<close>

theorem union_claim_counterexample:
  "parse (ZodUnion [ZodString None, ZodNumber None]) (VBoolean True) =
     Inl (Error (''Invalid values: '' @ [CHR 0x0A] @ '' Not a string'' @ [CHR 0x0A] @ ''Not a number''))
   \<and> ''Invalid values: '' @ [CHR 0x0A] @ '' Not a string'' @ [CHR 0x0A] @ ''Not a number''
       \<noteq> join_newline [''Not a string'', ''Not a number'']
   \<and> parse (ZodString_min None (Finite 3)) (VString ''ab'') = Inl (Error ''Must be at least 3 characters'')
   \<and> parse (ZodUnion [ZodString_min None (Finite 3)]) (VString ''ab'') = Inr VUndefined"
  by (simp add: ZodString_parse_def ZodNumber_parse_def get_checkers_def catch_push_def
      invalid_values_def ZodString_min_def ZodString_create_def
      string_min_checker_def safe_integer_def nat_toString.simps)

section \<open>Refinements\<close>




section \<open>Optional and the absence sentinel\<close>

text \<open>
  C10. In the class-based file the absence sentinel is \<open>undefined\<close>: \<open>Optional(S)\<close>
  returns \<open>undefined\<close> on \<open>undefined\<close> whatever \<open>S\<close> is, and on every other value, \<open>null\<close>
  among them, it is the parse of \<open>S\<close>. The parse of an object schema rejects \<open>null\<close>
  as not an object, in both files.
\<close>

theorem absence_sentinel_is_undefined:
  "parse (ZodOptional t) VUndefined = Inr VUndefined
   \<and> parse (ZodOptional t) v = (if v = VUndefined then Inr VUndefined else parse t v)
   \<and> parse (ZodOptional t) VNull = parse t VNull
   \<and> parse (ZodObject fs) VNull = Inl (Error ''Not an object'')
   \<and> iparse (IZodObject ifs) VNull = Inl (ZodTypeError ''Invalid object'')"
  by simp

theorem absence_sentinel_is_undefined_witness:
  "parse (ZodOptional (ZodString None)) VUndefined = Inr VUndefined
   \<and> parse (ZodString None) VUndefined = Inl (TypeError ''Not a string'')
   \<and> parse (ZodOptional (ZodString None)) VNull = Inl (TypeError ''Not a string'')
   \<and> parse (ZodOptional (ZodString None)) (VString ''x'') = Inr (VString ''x'')
   \<and> parse (ZodObject [(''a'', ZodOptional (ZodString None))]) VNull = Inl (Error ''Not an object'')
   \<and> parse (ZodObject [(''a'', ZodOptional (ZodString None))]) (VObject []) = Inr (VObject [])
   \<and> iparse (IZodObject []) VNull = Inl (ZodTypeError ''Invalid object'')"
  using absence_sentinel_is_undefined [where t = "ZodString None" and v = "VString ''x''"
      and fs = "[(''a'', ZodOptional (ZodString None))]" and ifs = "[]"]
  by (simp add: ZodString_parse_def get_checkers_def Object_prototype_get_def
      Object_prototype_names_def)

section \<open>Intersection\<close>

lemma intersection_parse_cases:
  "parse (ZodIntersection l r) v =
     (if (\<exists>a. parse l v = Inl (TypeError a)) \<and> (\<exists>b. parse r v = Inl (TypeError b))
      then Inl (invalid_values [projl (parse l v), projl (parse r v)])
      else Inr v)"
proof (cases "parse l v")
  case (Inr a)
  then show ?thesis
    by (cases "parse r v") (auto simp: catch_push_def Let_def)
next
  case (Inl e)
  show ?thesis
  proof (cases "parse r v")
    case (Inr b)
    then show ?thesis using Inl by (cases e) (auto simp: catch_push_def Let_def)
  next
    case (Inl e')
    then show ?thesis using \<open>parse l v = Inl e\<close>
      by (cases e; cases e') (auto simp: catch_push_def Let_def)
  qed
qed

text \<open>
  C2 at \<open>Intersection(String, Number)\<close> on \<open>"x"\<close>: the left child accepts, the right
  child fails with a \<open>TypeError\<close>, and the intersection returns \<open>"x"\<close>. The method
  throws only when \<open>errors.length === 2\<close>.
\<close>

theorem intersection_accepts_when_one_side_fails:
  "parse (ZodString None) (VString ''x'') = Inr (VString ''x'')
   \<and> parse (ZodNumber None) (VString ''x'') = Inl (TypeError ''Not a number'')
   \<and> parse (ZodIntersection (ZodString None) (ZodNumber None)) (VString ''x'') = Inr (VString ''x'')"
  by (simp add: ZodString_parse_def ZodNumber_parse_def get_checkers_def catch_push_def)

text \<open>
  A failure of a union or of an intersection is always the one it builds itself: no
  failure of a branch reaches the caller as it was thrown.
\<close>

lemma union_failure_is_its_own:
  "parse_union ts n v errors = Inl e \<Longrightarrow> \<exists>es. e = invalid_values es"
  by (induction ts arbitrary: errors) (auto split: if_splits sum.splits)

lemma intersection_failure_is_its_own:
  "parse (ZodIntersection l r) v = Inl e \<Longrightarrow> \<exists>es. e = invalid_values es"
  by (subst (asm) intersection_parse_cases) (auto split: if_splits)

text \<open>
  C4 at \<open>Union([String.min(3), Number])\<close> and \<open>Intersection(String.min(3), Number)\<close> on
  \<open>"ab"\<close>. The first branch fails with the plain \<open>Error\<close> of the refinement. The
  \<open>catch\<close> block neither counts it nor throws it again: the union falls off the end of
  the method and returns \<open>undefined\<close>, and the intersection returns its input.
\<close>

theorem combinators_swallow_other_failures:
  "parse (ZodString_min None (Finite 3)) (VString ''ab'') = Inl (Error ''Must be at least 3 characters'')
   \<and> parse (ZodNumber None) (VString ''ab'') = Inl (TypeError ''Not a number'')
   \<and> parse (ZodUnion [ZodString_min None (Finite 3), ZodNumber None]) (VString ''ab'') = Inr VUndefined
   \<and> parse (ZodIntersection (ZodString_min None (Finite 3)) (ZodNumber None)) (VString ''ab'') = Inr (VString ''ab'')"
  by (simp add: ZodString_parse_def ZodNumber_parse_def get_checkers_def catch_push_def
      ZodString_min_def ZodString_create_def string_min_checker_def safe_integer_def
      nat_toString.simps)

section \<open>Object\<close>






text \<open>
  An undeclared key of the input changes nothing in the class-based
  \<open>ZodObject.parse\<close>: with or without it parse fails with the same failure, or returns
  its input.
\<close>

lemma class_object_ignores_extra_keys:
  assumes "k' \<notin> fst ` set fs"
  shows "parse (ZodObject fs) (VObject (kvs1 @ (k', x) # kvs2)) =
     (case parse (ZodObject fs) (VObject (kvs1 @ kvs2)) of
        Inl e \<Rightarrow> Inl e
      | Inr _ \<Rightarrow> Inr (VObject (kvs1 @ (k', x) # kvs2)))"
proof -
  have "get_prop (VObject (kvs1 @ (k', x) # kvs2)) k = get_prop (VObject (kvs1 @ kvs2)) k"
    if "k \<in> fst ` set fs" for k
  proof -
    from that assms have "k \<noteq> k'" by auto
    then show ?thesis by (rule get_prop_extra_key)
  qed
  then have "\<forall>k\<in>fst ` set fs.
      get_prop (VObject (kvs1 @ (k', x) # kvs2)) k = get_prop (VObject (kvs1 @ kvs2)) k"
    by blast
  then have eq: "parse_fields fs (VObject (kvs1 @ (k', x) # kvs2)) = parse_fields fs (VObject (kvs1 @ kvs2))"
    by (rule parse_fields_cong_props)
  show ?thesis
  proof (cases "parse_fields fs (VObject (kvs1 @ kvs2))")
    case (Inl e)
    with eq show ?thesis by simp
  next
    case (Inr u)
    with eq show ?thesis by simp
  qed
qed

text \<open>
  C3 at the interface-based \<open>object({a: string()})\<close>: it accepts \<open>{a: "x"}\<close>, and on
  \<open>{a: "x", extra: 1}\<close> it reads \<open>fields["extra"]\<close>, which is \<open>undefined\<close>, and the
  call of \<open>.parse\<close> on it throws.
\<close>

theorem interface_object_throws_on_extra_key:
  "iparse (IZodObject [(''a'', IZodString)]) (VObject [(''a'', VString ''x''), (''extra'', VNumber (Finite 1))])
     = Inl RuntimeTypeError
   \<and> iparse (IZodObject [(''a'', IZodString)]) (VObject [(''a'', VString ''x'')])
     = Inr (VObject [(''a'', VString ''x'')])"
  by simp

section \<open>The two engines compared\<close>

lemma iparse_idempotent:
  "iparse t v = Inr w \<Longrightarrow> iparse t w = Inr w"
  "iparse_elements t xs = Inr ws \<Longrightarrow> iparse_elements t ws = Inr ws"
  "iparse_entries fs es = Inr u \<Longrightarrow> True"
proof (induction t v and t xs and fs es arbitrary: w and ws and u
    rule: iparse_iparse_elements_iparse_entries.induct)
qed (auto split: if_splits sum.splits option.splits)

lemma iparse_elements_ok_iff:
  "(\<exists>ws. iparse_elements t xs = Inr ws) \<longleftrightarrow> (\<forall>x\<in>set xs. \<exists>w. iparse t x = Inr w)"
  by (induction xs) (auto split: sum.splits)

text \<open>
  On the schemas without an object, the two engines accept the same values of the
  model, which has no arrays with holes: \<open>map\<close> skips a hole that \<open>for ... of\<close> visits.
\<close>

lemma encodings_agree_without_objects:
  "object_free t \<Longrightarrow> (\<exists>w. iparse t v = Inr w) \<longleftrightarrow> (\<exists>w. parse (class_of t) v = Inr w)"
proof (induction t arbitrary: v)
  case IZodUnknown
  then show ?case by simp
next
  case IZodString
  then show ?case
    by (cases v) (auto simp: ZodString_create_def ZodString_parse_def get_checkers_def)
next
  case IZodNumber
  then show ?case
    by (cases v) (auto simp: ZodNumber_create_def ZodNumber_parse_def get_checkers_def)
next
  case (IZodArray t)
  show ?case
  proof (cases "\<exists>xs. v = VArray xs")
    case False
    then show ?thesis by (cases v) auto
  next
    case True
    then obtain xs where v: "v = VArray xs" by blast
    have "(\<exists>ws. iparse_elements t xs = Inr ws) \<longleftrightarrow> (\<exists>u. parse_elements (class_of t) xs = Inr u)"
      using IZodArray by (simp add: iparse_elements_ok_iff parse_elements_ok_iff)
    then show ?thesis
      using v by (auto split: sum.splits)
  qed
next
  case (IZodObject fs)
  then show ?case by simp
qed

text \<open>
  C6 at \<open>object({n: number()})\<close>: the interface-based engine accepts \<open>{}\<close>, which the
  class-based engine rejects, and throws on \<open>{n: 1, m: null}\<close>, which the class-based
  engine accepts.
\<close>

theorem encodings_disagree_on_objects:
  "iparse (IZodObject [(''n'', IZodNumber)]) (VObject []) = Inr (VObject [])
   \<and> parse (class_of (IZodObject [(''n'', IZodNumber)])) (VObject []) = Inl (TypeError ''Not a number'')
   \<and> iparse (IZodObject [(''n'', IZodNumber)]) (VObject [(''n'', VNumber (Finite 1)), (''m'', VNull)])
       = Inl RuntimeTypeError
   \<and> parse (class_of (IZodObject [(''n'', IZodNumber)])) (VObject [(''n'', VNumber (Finite 1)), (''m'', VNull)])
       = Inr (VObject [(''n'', VNumber (Finite 1)), (''m'', VNull)])"
  by (simp add: ZodNumber_parse_def ZodNumber_create_def get_checkers_def
      Object_prototype_get_def Object_prototype_names_def)

section \<open>Refinement calls\<close>

lemma heap_refine_fst: "fst (heap_refine h this c) = length h + 2"
  by (simp add: heap_refine_def alloc_def Let_def)

lemma heap_refine_receiver:
  assumes "closed_heap h" and "this < length h"
  shows "heap_checkers (snd (heap_refine h this c)) this = heap_checkers h this"
  unfolding heap_refine_heap using assms by (rule heap_checkers_append)

lemma heap_refine_props:
  "length h \<le> fst (heap_refine h this c)
   \<and> (\<forall>a<length h. heap_lookup (snd (heap_refine h this c)) a = heap_lookup h a)
   \<and> heap_checkers (snd (heap_refine h this c)) (fst (heap_refine h this c)) = heap_checkers h this @ [c]
   \<and> (closed_heap h \<and> this < length h \<longrightarrow>
        closed_heap (snd (heap_refine h this c))
        \<and> heap_checkers (snd (heap_refine h this c)) this = heap_checkers h this)"
proof (intro conjI impI)
  show "length h \<le> fst (heap_refine h this c)"
    by (simp add: heap_refine_fst)
  show "\<forall>a<length h. heap_lookup (snd (heap_refine h this c)) a = heap_lookup h a"
    using heap_refine_frame [of h this c] by (cases "heap_refine h this c") simp
  show "heap_checkers (snd (heap_refine h this c)) (fst (heap_refine h this c)) = heap_checkers h this @ [c]"
    using heap_refine_new [of h this c] by (cases "heap_refine h this c") simp
  show "closed_heap (snd (heap_refine h this c))" if "closed_heap h \<and> this < length h"
    using that by (simp add: heap_refine_closed)
  show "heap_checkers (snd (heap_refine h this c)) this = heap_checkers h this"
    if "closed_heap h \<and> this < length h"
    using that by (simp add: heap_refine_receiver)
qed

text \<open>
  C8. Each of \<open>min\<close> and \<open>max\<close>, on a String or a Number schema, returns an instance at
  an address that was not allocated before, whose checkers are those of the receiver
  followed by the new one. No object that existed before the call is changed. So in a
  closed heap the receiver has the checkers it had, and parses every value as it did;
  the heap stays closed. The schema the functional model builds has the receiver's checkers
  followed by the new one, and parses as the new instance of the heap does.
\<close>

theorem refinement_appends_and_keeps_receiver:
  "(\<forall>(m, c)\<in>{(heap_ZodString_min h this n, string_min_checker n),
               (heap_ZodString_max h this n, string_max_checker n)}.
      length h \<le> fst m
      \<and> (\<forall>a<length h. heap_lookup (snd m) a = heap_lookup h a)
      \<and> heap_checkers (snd m) (fst m) = heap_checkers h this @ [c]
      \<and> (\<forall>v. heap_ZodString_parse (snd m) (fst m) v =
               parse (ZodString (Some \<lparr>checkers = Some (heap_checkers h this @ [c])\<rparr>)) v)
      \<and> (closed_heap h \<and> this < length h \<longrightarrow>
           closed_heap (snd m)
           \<and> heap_checkers (snd m) this = heap_checkers h this
           \<and> (\<forall>v. heap_ZodString_parse (snd m) this v = heap_ZodString_parse h this v)))
   \<and> (\<forall>(m, c)\<in>{(heap_ZodNumber_min g that n, number_min_checker n),
               (heap_ZodNumber_max g that n, number_max_checker n)}.
      length g \<le> fst m
      \<and> (\<forall>a<length g. heap_lookup (snd m) a = heap_lookup g a)
      \<and> heap_checkers (snd m) (fst m) = heap_checkers g that @ [c]
      \<and> (\<forall>v. heap_ZodNumber_parse (snd m) (fst m) v =
               parse (ZodNumber (Some \<lparr>checkers = Some (heap_checkers g that @ [c])\<rparr>)) v)
      \<and> (closed_heap g \<and> that < length g \<longrightarrow>
           closed_heap (snd m)
           \<and> heap_checkers (snd m) that = heap_checkers g that
           \<and> (\<forall>v. heap_ZodNumber_parse (snd m) that v = heap_ZodNumber_parse g that v)))
   \<and> (\<exists>d'. ZodString_min d n = ZodString d' \<and> get_checkers d' = get_checkers d @ [string_min_checker n])
   \<and> (\<exists>d'. ZodString_max d n = ZodString d' \<and> get_checkers d' = get_checkers d @ [string_max_checker n])
   \<and> (\<exists>e'. ZodNumber_min e n = ZodNumber e' \<and> get_checkers e' = get_checkers e @ [number_min_checker n])
   \<and> (\<exists>e'. ZodNumber_max e n = ZodNumber e' \<and> get_checkers e' = get_checkers e @ [number_max_checker n])"
proof (intro conjI)
  show "\<forall>(m, c)\<in>{(heap_ZodString_min h this n, string_min_checker n),
               (heap_ZodString_max h this n, string_max_checker n)}.
      length h \<le> fst m
      \<and> (\<forall>a<length h. heap_lookup (snd m) a = heap_lookup h a)
      \<and> heap_checkers (snd m) (fst m) = heap_checkers h this @ [c]
      \<and> (\<forall>v. heap_ZodString_parse (snd m) (fst m) v =
               parse (ZodString (Some \<lparr>checkers = Some (heap_checkers h this @ [c])\<rparr>)) v)
      \<and> (closed_heap h \<and> this < length h \<longrightarrow>
           closed_heap (snd m)
           \<and> heap_checkers (snd m) this = heap_checkers h this
           \<and> (\<forall>v. heap_ZodString_parse (snd m) this v = heap_ZodString_parse h this v))"
    using heap_refine_props [of h this "string_min_checker n"]
      heap_refine_props [of h this "string_max_checker n"]
    by (simp add: heap_ZodString_min_def heap_ZodString_max_def heap_ZodString_parse_def
        heap_definition_def)
  show "\<forall>(m, c)\<in>{(heap_ZodNumber_min g that n, number_min_checker n),
               (heap_ZodNumber_max g that n, number_max_checker n)}.
      length g \<le> fst m
      \<and> (\<forall>a<length g. heap_lookup (snd m) a = heap_lookup g a)
      \<and> heap_checkers (snd m) (fst m) = heap_checkers g that @ [c]
      \<and> (\<forall>v. heap_ZodNumber_parse (snd m) (fst m) v =
               parse (ZodNumber (Some \<lparr>checkers = Some (heap_checkers g that @ [c])\<rparr>)) v)
      \<and> (closed_heap g \<and> that < length g \<longrightarrow>
           closed_heap (snd m)
           \<and> heap_checkers (snd m) that = heap_checkers g that
           \<and> (\<forall>v. heap_ZodNumber_parse (snd m) that v = heap_ZodNumber_parse g that v))"
    using heap_refine_props [of g that "number_min_checker n"]
      heap_refine_props [of g that "number_max_checker n"]
    by (simp add: heap_ZodNumber_min_def heap_ZodNumber_max_def heap_ZodNumber_parse_def
        heap_definition_def)
  show "\<exists>d'. ZodString_min d n = ZodString d' \<and> get_checkers d' = get_checkers d @ [string_min_checker n]"
    by (simp add: ZodString_min_def ZodString_create_def get_checkers_def [of "Some _"])
  show "\<exists>d'. ZodString_max d n = ZodString d' \<and> get_checkers d' = get_checkers d @ [string_max_checker n]"
    by (simp add: ZodString_max_def ZodString_create_def get_checkers_def [of "Some _"])
  show "\<exists>e'. ZodNumber_min e n = ZodNumber e' \<and> get_checkers e' = get_checkers e @ [number_min_checker n]"
    by (simp add: ZodNumber_min_def ZodNumber_create_def get_checkers_def [of "Some _"])
  show "\<exists>e'. ZodNumber_max e n = ZodNumber e' \<and> get_checkers e' = get_checkers e @ [number_max_checker n]"
    by (simp add: ZodNumber_max_def ZodNumber_create_def get_checkers_def [of "Some _"])
qed

text \<open>
  The theorem on a heap that holds \<open>String.max(5)\<close>, with \<open>min(3)\<close> called on it, and on
  a heap that holds \<open>Number\<close> without a definition, with \<open>max(7)\<close> called on it: the
  receiver still accepts what the new instance rejects.
\<close>

theorem refinement_appends_and_keeps_receiver_witness:
  "(let h = [CheckerArray [string_max_checker (Finite 5)], DefinitionObject (Some 0), LeafSchema (Some 1)];
        m = heap_ZodString_min h 2 (Finite 3)
    in closed_heap h \<and> 2 < length h
       \<and> heap_lookup (snd m) 2 = Some (LeafSchema (Some 1))
       \<and> fst m = 5
       \<and> heap_checkers (snd m) 2 = [string_max_checker (Finite 5)]
       \<and> heap_checkers (snd m) (fst m) = [string_max_checker (Finite 5), string_min_checker (Finite 3)]
       \<and> heap_ZodString_parse h 2 (VString ''ab'') = Inr (VString ''ab'')
       \<and> heap_ZodString_parse (snd m) 2 (VString ''ab'') = Inr (VString ''ab'')
       \<and> heap_ZodString_parse (snd m) (fst m) (VString ''ab'')
           = Inl (Error ''Must be at least 3 characters''))
   \<and> (let g = [LeafSchema None];
          m = heap_ZodNumber_max g 0 (Finite 7)
      in closed_heap g \<and> 0 < length g
         \<and> heap_checkers (snd m) 0 = []
         \<and> heap_checkers (snd m) (fst m) = [number_max_checker (Finite 7)]
         \<and> heap_ZodNumber_parse (snd m) 0 (VNumber (Finite 9)) = Inr (VNumber (Finite 9))
         \<and> heap_ZodNumber_parse (snd m) (fst m) (VNumber (Finite 9)) = Inl (Error ''Must be at most 7''))"
  using refinement_appends_and_keeps_receiver
    [where h = "[CheckerArray [string_max_checker (Finite 5)], DefinitionObject (Some 0), LeafSchema (Some 1)]"
       and this = 2 and n = "Finite 3" and g = "[LeafSchema None]" and that = 0 and d = None and e = None]
    refinement_appends_and_keeps_receiver
    [where h = "[]" and this = 0 and n = "Finite 7" and g = "[LeafSchema None]" and that = 0
       and d = None and e = None]
  by (simp add: Let_def heap_ZodString_min_def heap_ZodNumber_max_def heap_refine_def alloc_def
      heap_checkers_def heap_lookup_def closed_heap_def heap_ZodString_parse_def
      heap_ZodNumber_parse_def heap_definition_def ZodString_parse_def ZodNumber_parse_def
      get_checkers_def string_min_checker_def string_max_checker_def number_max_checker_def
      safe_integer_def js_le_def nat_toString.simps)

section \<open>Parsing an output again\<close>

lemma parse_returns_input_or_undefined:
  "parse t v = Inr w \<Longrightarrow> w = v \<or> w = VUndefined"
  "parse_union ts n v errors = Inr w \<Longrightarrow> w = v \<or> w = VUndefined"
  "parse_elements t xs = Inr u \<Longrightarrow> True"
  "parse_fields fs v = Inr u \<Longrightarrow> True"
proof (induction t v and ts n v errors and t xs and fs v
    arbitrary: w and w and u and u rule: parse_parse_union_parse_elements_parse_fields.induct)
  case (3 l r v)
  from "3.prems" show ?case
    by (subst (asm) intersection_parse_cases) (simp split: if_splits)
next
  case (5 d v)
  then show ?case by (auto simp: ZodString_parse_def split: jsvalue.splits sum.splits)
next
  case (6 d v)
  then show ?case by (auto simp: ZodNumber_parse_def split: jsvalue.splits sum.splits)
qed (auto split: if_splits sum.splits jsvalue.splits)

text \<open>
  C9 at \<open>Union([Number.max(0)])\<close> on \<open>5\<close>: the only branch fails with the plain \<open>Error\<close>
  of the refinement, which the union does not count, so the union returns \<open>undefined\<close>;
  parsing that output again fails, since the branch now fails with a \<open>TypeError\<close>.
\<close>

theorem union_output_is_rejected_on_reparse:
  "parse (ZodUnion [ZodNumber_max None (Finite 0)]) (VNumber (Finite 5)) = Inr VUndefined
   \<and> parse (ZodUnion [ZodNumber_max None (Finite 0)]) VUndefined =
       Inl (Error (''Invalid values: '' @ [CHR 0x0A] @ '' Not a number''))"
  by (simp add: ZodNumber_parse_def get_checkers_def catch_push_def invalid_values_def
      ZodNumber_max_def ZodNumber_create_def number_max_checker_def js_le_def)

end
